theory Spec2Isabelle
  imports Main
begin

section \<open>JavaScript values\<close>

text \<open>
  The values that occur in an Options object and in a report tree.  Numbers are the
  integers the extractors produce (lengths, counts, times), with \<open>JNaN\<close> for the
  result of arithmetic on \<open>undefined\<close>.  An object is the list of its own enumerable
  properties in \<open>Object.keys\<close> order; \<open>JFun\<close> is a built-in function, known by its
  name.
\<close>

datatype jsval =
    JUndefined
  | JNull
  | JBool bool
  | JNum int
  | JNaN
  | JStr string
  | JArr "jsval list"
  | JObj "(string \<times> jsval) list"
  | JFun string

text \<open>\<open>Boolean(v)\<close>, the test of \<open>if (v)\<close> and of \<open>a || b\<close>.\<close>

fun truthy :: "jsval \<Rightarrow> bool" where
  "truthy JUndefined = False"
| "truthy JNull = False"
| "truthy (JBool b) = b"
| "truthy (JNum n) = (n \<noteq> 0)"
| "truthy JNaN = False"
| "truthy (JStr s) = (s \<noteq> [])"
| "truthy (JArr xs) = True"
| "truthy (JObj kvs) = True"
| "truthy (JFun f) = True"

text \<open>
  A property read \<open>o[k]\<close> looks at the own properties of the object and then at its
  prototype.  An Options object is a plain object, whose prototype is
  \<open>Object.prototype\<close>: a key that is not an own property reads as the member of
  \<open>Object.prototype\<close> of that name, where there is one (a built-in function, and
  \<open>Object.prototype\<close> itself, which has no enumerable property, for \<open>__proto__\<close>), and
  as \<open>undefined\<close> otherwise.
\<close>

type_synonym jsprops = "(string \<times> jsval) list"

definition Object_prototype_names :: "string list" where
  "Object_prototype_names =
     [''constructor'', ''__defineGetter__'', ''__defineSetter__'', ''hasOwnProperty'',
      ''__lookupGetter__'', ''__lookupSetter__'', ''isPrototypeOf'', ''propertyIsEnumerable'',
      ''toString'', ''valueOf'', ''__proto__'', ''toLocaleString'']"

definition Object_prototype :: "string \<Rightarrow> jsval" where
  "Object_prototype k =
     (if k = ''__proto__'' then JObj []
      else if k \<in> set Object_prototype_names then JFun k
      else JUndefined)"

definition js_get :: "jsprops \<Rightarrow> string \<Rightarrow> jsval" where
  "js_get props k = (case map_of props k of None \<Rightarrow> Object_prototype k | Some v \<Rightarrow> v)"

section \<open>The factory plugin: \<open>iterateConfig\<close>\<close>

text \<open>
  \<^verbatim>\<open>
  const iterateConfig = (config, options, fn) => {
    for (const hookFor of Object.keys(config)) {
      const subConfig = config[hookFor];
      for (const option of Object.keys(subConfig)) {
        if (option === "_" || options[option]) {
          fn(hookFor, subConfig[option]);
        }
      }
    }
  };
  \<close>
  A configuration is the list of its entries in \<open>Object.keys\<close> order, each entry the
  list of its (option, handler) pairs.  The callback \<open>fn\<close> acts on a state \<open>'s\<close>
  (in the plugin: the hooks it taps).
\<close>

fun iterateSubConfig ::
  "jsprops \<Rightarrow> (string \<Rightarrow> 'h \<Rightarrow> 's \<Rightarrow> 's) \<Rightarrow> string \<Rightarrow> (string \<times> 'h) list \<Rightarrow> 's \<Rightarrow> 's" where
  "iterateSubConfig options fn hookFor [] s = s"
| "iterateSubConfig options fn hookFor ((option, h) # rest) s =
     iterateSubConfig options fn hookFor rest
       (if option = ''_'' \<or> truthy (js_get options option) then fn hookFor h s else s)"

fun iterateConfig ::
  "(string \<times> (string \<times> 'h) list) list \<Rightarrow> jsprops \<Rightarrow> (string \<Rightarrow> 'h \<Rightarrow> 's \<Rightarrow> 's) \<Rightarrow> 's \<Rightarrow> 's" where
  "iterateConfig [] options fn s = s"
| "iterateConfig ((hookFor, subConfig) # config) options fn s =
     iterateConfig config options fn (iterateSubConfig options fn hookFor subConfig s)"

text \<open>
  The gate as the specification words it: the key \<open>"_"\<close> is unconditional, any other
  key is looked up in Options.
\<close>

definition gate_spec :: "jsprops \<Rightarrow> string \<Rightarrow> bool" where
  "gate_spec options option = (if option = ''_'' then True else truthy (js_get options option))"

definition selected :: "(string \<times> (string \<times> 'h) list) list \<Rightarrow> jsprops \<Rightarrow> (string \<times> 'h) list" where
  "selected config options =
     concat (map (\<lambda>(hookFor, subConfig).
               map (\<lambda>(option, h). (hookFor, h))
                   (filter (\<lambda>(option, h). gate_spec options option) subConfig)) config)"

section \<open>The factory plugin: \<open>mergeToObject\<close>\<close>

text \<open>
  \<^verbatim>\<open>
  const mergeToObject = items => {
    const obj = Object.create(null);
    for (const item of items) {
      obj[item.name] = item;
    }
    return obj;
  };
  \<close>
  An item is any record with a \<open>name\<close> field.  The object has no prototype, so it is
  the map of the properties assigned to it.
\<close>

record named =
  name :: string

fun mergeToObject_loop ::
  "'a named_scheme list \<Rightarrow> (string \<rightharpoonup> 'a named_scheme) \<Rightarrow> (string \<rightharpoonup> 'a named_scheme)" where
  "mergeToObject_loop [] obj = obj"
| "mergeToObject_loop (item # items) obj = mergeToObject_loop items (obj(name item \<mapsto> item))"

definition mergeToObject :: "'a named_scheme list \<Rightarrow> (string \<rightharpoonup> 'a named_scheme)" where
  "mergeToObject items = mergeToObject_loop items Map.empty"

text \<open>The items of the specification's example: a name and a field \<open>v\<close>.\<close>

record valued = named +
  v :: int

section \<open>The printer plugin: \<open>createOrder\<close>\<close>

text \<open>\<open>s.endsWith(suffix)\<close>\<close>

definition endsWith :: "string \<Rightarrow> string \<Rightarrow> bool" where
  "endsWith s suffix =
     (length suffix \<le> length s \<and> drop (length s - length suffix) s = suffix)"

text \<open>
  \<^verbatim>\<open>
  const createOrder = (array, preferedOrder) => {
    const originalArray = array.slice();
    const set = new Set(array);
    const usedSet = new Set();
    array.length = 0;
    for (const element of preferedOrder) {
      if (element.endsWith("!") || set.has(element)) {
        array.push(element);
        usedSet.add(element);
      }
    }
    for (const element of originalArray) {
      if (!usedSet.has(element)) {
        array.push(element);
      }
    }
    return array;
  };
  \<close>
  The two loops act on the pair of \<open>array\<close> and \<open>usedSet\<close>; the function returns the
  array it has refilled.
\<close>

fun createOrder_prefered ::
  "string set \<Rightarrow> string list \<Rightarrow> string list \<times> string set \<Rightarrow> string list \<times> string set" where
  "createOrder_prefered present [] st = st"
| "createOrder_prefered present (element # rest) (array, usedSet) =
     createOrder_prefered present rest
       (if endsWith element ''!'' \<or> element \<in> present
        then (array @ [element], insert element usedSet)
        else (array, usedSet))"

fun createOrder_original ::
  "string list \<Rightarrow> string list \<times> string set \<Rightarrow> string list \<times> string set" where
  "createOrder_original [] st = st"
| "createOrder_original (element # rest) (array, usedSet) =
     createOrder_original rest
       (if element \<notin> usedSet then (array @ [element], usedSet) else (array, usedSet))"

definition createOrder :: "string list \<Rightarrow> string list \<Rightarrow> string list" where
  "createOrder array preferedOrder =
     (let originalArray = array;
          present = set array
      in fst (createOrder_original originalArray
                (createOrder_prefered present preferedOrder ([], {}))))"

section \<open>The printer plugin: \<open>table\<close>\<close>

text \<open>What a function of the plugin throws.\<close>

datatype error = TypeError

text \<open>
  \<open>items.join(separator)\<close> on an array of strings.
\<close>

fun join :: "string list \<Rightarrow> string \<Rightarrow> string" where
  "join [] separator = []"
| "join [x] separator = x"
| "join (x # y # ys) separator = x @ separator @ join (y # ys) separator"

text \<open>
  The template string of \<open>array[row][col]\<close>: the cell itself, and the text
  \<open>undefined\<close> where the row is shorter than the first row.
\<close>

definition cell :: "string list \<Rightarrow> nat \<Rightarrow> string" where
  "cell row col = (if col < length row then row ! col else ''undefined'')"

text \<open>\<open>align[col] === a\<close>: false beyond the end of \<open>align\<close>, where the read is \<open>undefined\<close>.\<close>

definition align_is :: "string list \<Rightarrow> nat \<Rightarrow> string \<Rightarrow> bool" where
  "align_is align col a = (col < length align \<and> align ! col = a)"

text \<open>\<open>splitter || "  "\<close>: an absent or empty splitter is two spaces.\<close>

definition splitter_or_default :: "string option \<Rightarrow> string" where
  "splitter_or_default splitter =
     (case splitter of None \<Rightarrow> ''  '' | Some sp \<Rightarrow> if sp = [] then ''  '' else sp)"

text \<open>
  \<^verbatim>\<open>
  const table = (array, align, splitter) => {
    const rows = array.length;
    const cols = array[0].length;
    const colSizes = new Array(cols);
    for (let col = 0; col < cols; col++) {
      colSizes[col] = 0;
    }
    for (let row = 0; row < rows; row++) {
      for (let col = 0; col < cols; col++) {
        const value = `${array[row][col]}`;
        if (value.length > colSizes[col]) {
          colSizes[col] = value.length;
        }
      }
    }
  \<close>
  The counted loops are folds over the column indices and over the rows.
\<close>

definition measure_cell :: "string list \<Rightarrow> nat \<Rightarrow> nat list \<Rightarrow> nat list" where
  "measure_cell row col colSizes =
     (let value = cell row col
      in if length value > colSizes ! col then colSizes[col := length value] else colSizes)"

definition measure_row :: "nat \<Rightarrow> string list \<Rightarrow> nat list \<Rightarrow> nat list" where
  "measure_row cols row colSizes = fold (measure_cell row) [0..<cols] colSizes"

definition measure_rows :: "nat \<Rightarrow> string list list \<Rightarrow> nat list" where
  "measure_rows cols array = fold (measure_row cols) array (replicate cols 0)"

text \<open>
  \<^verbatim>\<open>
    const lines = [];
    for (let row = 0; row < rows; row++) {
      let str = "";
      for (let col = 0; col < cols; col++) {
        const value = `${array[row][col]}`;
        let l = value.length;
        if (align[col] === "l") {
          str += value;
        }
        for (; l < colSizes[col] && col !== cols - 1; l++) {
          str += " ";
        }
        if (align[col] === "r") {
          str += value;
        }
        if (col + 1 < cols && colSizes[col] !== 0) {
          str += splitter || "  ";
        }
      }
      lines.push(str);
    }
    return lines.join("\n");
  };
  \<close>
  The padding loop runs while \<open>l\<close> is below the column size, and not at all in the last
  column (\<open>col !== cols - 1\<close>).
\<close>

function pad_loop :: "nat \<Rightarrow> nat \<Rightarrow> bool \<Rightarrow> string \<Rightarrow> string" where
  "pad_loop l colSize notLast str =
     (if l < colSize \<and> notLast then pad_loop (Suc l) colSize notLast (str @ '' '') else str)"
  by pat_completeness auto
termination
  by (relation "measure (\<lambda>(l, colSize, notLast, str). colSize - l)") auto

declare pad_loop.simps [simp del]

definition table_col ::
  "nat \<Rightarrow> nat list \<Rightarrow> string list \<Rightarrow> string option \<Rightarrow> string list \<Rightarrow> nat \<Rightarrow> string \<Rightarrow> string" where
  "table_col cols colSizes align splitter row col str =
     (let value = cell row col;
          l = length value;
          str = (if align_is align col ''l'' then str @ value else str);
          str = pad_loop l (colSizes ! col) (col \<noteq> cols - 1) str;
          str = (if align_is align col ''r'' then str @ value else str);
          str = (if col + 1 < cols \<and> colSizes ! col \<noteq> 0
                 then str @ splitter_or_default splitter else str)
      in str)"

definition table_line ::
  "nat \<Rightarrow> nat list \<Rightarrow> string list \<Rightarrow> string option \<Rightarrow> string list \<Rightarrow> string" where
  "table_line cols colSizes align splitter row =
     fold (table_col cols colSizes align splitter row) [0..<cols] []"

text \<open>
  With no rows \<open>array[0]\<close> is \<open>undefined\<close>, and reading its \<open>length\<close> throws a
  TypeError.
\<close>

definition table :: "string list list \<Rightarrow> string list \<Rightarrow> string option \<Rightarrow> error + string" where
  "table array align splitter =
     (case array of
        [] \<Rightarrow> Inl TypeError
      | first # _ \<Rightarrow>
          let cols = length first;
              colSizes = measure_rows cols array;
              lines = map (table_line cols colSizes align splitter) array
          in Inr (join lines [CHR 0x0A]))"

text \<open>
  The handler the plugin taps on \<open>printItems\<close> for \<open>compilation.assets\<close>; \<open>bold\<close> is
  the colour function of the print context, every item the six cells of one asset.
  \<^verbatim>\<open>
  (items, { bold }) => {
    if (items.length === 0) return undefined;
    let header = ["Asset", "Size", "Chunks", "", "", "Chunk Names"];
    header = header.map(h => (h ? bold(h) : h));
    return table([header].concat(items), "rrrlll");
  }
  \<close>
  The alignment is a string, read one character at a time.
\<close>

definition printItems_compilation_assets ::
  "string list list \<Rightarrow> (string \<Rightarrow> string) \<Rightarrow> error + string option" where
  "printItems_compilation_assets items bold =
     (if length items = 0 then Inr None
      else
        let header = [''Asset'', ''Size'', ''Chunks'', [], [], ''Chunk Names''];
            header = map (\<lambda>h. if h \<noteq> [] then bold h else h) header
        in case table ([header] @ items) (map (\<lambda>c. [c]) ''rrrlll'') None of
             Inl e \<Rightarrow> Inl e
           | Inr text \<Rightarrow> Inr (Some text))"

text \<open>
  The layout in the words of the specification.  The width of a column is the greatest
  length of its cells.  A cell is padded with spaces to the width of its column, on the
  left when right-aligned and on the right when left-aligned; a cell with no alignment
  leaves only its padding.
\<close>

definition col_width :: "string list list \<Rightarrow> nat \<Rightarrow> nat" where
  "col_width array col = fold (\<lambda>row w. max w (length (cell row col))) array 0"

definition padded :: "string list \<Rightarrow> nat \<Rightarrow> nat \<Rightarrow> string \<Rightarrow> string" where
  "padded align col width value =
     (if align_is align col ''l'' then value @ replicate (width - length value) CHR '' ''
      else if align_is align col ''r'' then replicate (width - length value) CHR '' '' @ value
      else replicate (width - length value) CHR '' '')"

text \<open>
  What the code emits for one cell: padded and followed by the separator (unless the
  column has width zero) in every column but the last; in the last column the bare
  value, whatever its alignment.
\<close>

definition emitted_cell ::
  "string list list \<Rightarrow> string list \<Rightarrow> string option \<Rightarrow> string list \<Rightarrow> nat \<Rightarrow> string" where
  "emitted_cell array align splitter row col =
     (if col + 1 < length (hd array)
      then padded align col (col_width array col) (cell row col)
           @ (if col_width array col \<noteq> 0 then splitter_or_default splitter else [])
      else padded align col 0 (cell row col))"

section \<open>The printer plugin: the element joiner of a module\<close>

text \<open>
  The preferred order of the fields of a module (\<open>PREFERED_ORDERS.module\<close>), which the
  plugin hands to \<open>createOrder\<close> in its tap on \<open>sortElements\<close>.
\<close>

definition PREFERED_ORDERS_module :: "string list" where
  "PREFERED_ORDERS_module =
     [''id'', ''name'', ''identifier'', ''sizes'', ''chunks'', ''depth'', ''cacheable'',
      ''orphan'', ''runtime'', ''optional'', ''built'', ''assets'', ''failed'', ''warnings'',
      ''errors'', ''providedExports'', ''usedExports'', ''optimizationBailout'', ''reasons'',
      ''profile'', ''modules'']"

text \<open>
  The module object of the print context.  Its \<open>id\<close> is a string, a number or
  \<open>null\<close> (\<open>chunkGraph.getModuleId\<close>), its \<open>name\<close> a string
  (\<open>module.readableIdentifier\<close>); \<open>module.id === module.name\<close> holds exactly when the
  id is the string that is the name.
\<close>

datatype id_value = NullId | NumId int | StrId string

record module_object = named +
  module_id :: id_value

text \<open>A printed element: the name of the field and what its printer returned.\<close>

record printed =
  element :: string
  content :: "string option"

text \<open>\<open>Boolean(content)\<close>: \<open>undefined\<close> and the empty string are falsy.\<close>

definition content_truthy :: "string option \<Rightarrow> bool" where
  "content_truthy c = (case c of None \<Rightarrow> False | Some s \<Rightarrow> s \<noteq> [])"

text \<open>
  \<^verbatim>\<open>
  module: (items, { module }) => {
    let id = undefined;
    let hasName = false;
    return items
      .filter(item => {
        switch (item.element) {
          case "id":
            id = item.content;
            if (module.id === module.name) hasName = true;
            break;
          case "name":
            if (hasName) return false;
            if (item.content) hasName = true;
            break;
          case "identifier":
            if (hasName) return false;
            if (item.content) hasName = true;
            break;
        }
        return true;
      })
      .map(item => item.content)
      .filter(Boolean)
      .join(" ");
  }
  \<close>
  The callback of \<open>filter\<close> runs on the items in order and carries the two variables
  \<open>id\<close> and \<open>hasName\<close> from one item to the next.
\<close>

fun module_filter ::
  "'a module_object_scheme \<Rightarrow> string option \<times> bool \<Rightarrow> printed list \<Rightarrow> printed list" where
  "module_filter m st [] = []"
| "module_filter m (idv, hasName) (item # items) =
     (if element item = ''id''
      then item # module_filter m
             (content item, if module_id m = StrId (name m) then True else hasName) items
      else if element item = ''name''
      then (if hasName then module_filter m (idv, hasName) items
            else item # module_filter m
                   (idv, if content_truthy (content item) then True else hasName) items)
      else if element item = ''identifier''
      then (if hasName then module_filter m (idv, hasName) items
            else item # module_filter m
                   (idv, if content_truthy (content item) then True else hasName) items)
      else item # module_filter m (idv, hasName) items)"

text \<open>\<open>.map(item => item.content).filter(Boolean)\<close>: the contents that are non-empty strings.\<close>

definition contents :: "printed list \<Rightarrow> string list" where
  "contents items =
     concat (map (\<lambda>item. case content item of
                            None \<Rightarrow> []
                          | Some s \<Rightarrow> if s \<noteq> [] then [s] else []) items)"

definition SIMPLE_ELEMENT_JOINERS_module ::
  "printed list \<Rightarrow> 'a module_object_scheme \<Rightarrow> string" where
  "SIMPLE_ELEMENT_JOINERS_module items m =
     join (contents (module_filter m (None, False) items)) '' ''"

section \<open>The factory plugin: the extractors of a compilation\<close>

text \<open>
  What the extractors read of a compilation.  The sources, chunks, modules and chunk
  groups of the build are values of a type \<open>'x\<close> that the extractors of a compilation
  only pass on; \<open>getPublicPath\<close> is \<open>mainTemplate.getPublicPath\<close> as a function of the
  hash, \<open>outputPath\<close> is \<open>mainTemplate.outputOptions.path\<close>.  The assets are listed in
  \<open>Object.keys\<close> order, the two maps of chunk groups in insertion order.
\<close>

datatype 'x compilation = Compilation
  (needAdditionalPass: bool)
  (hash: string)
  (getPublicPath: "string \<Rightarrow> string")
  (outputPath: string)
  (assets: "(string \<times> 'x) list")
  (chunks: "'x list")
  (modules: "'x list")
  (entrypoints: "(string \<times> 'x) list")
  (namedChunkGroups: "(string \<times> 'x) list")
  (children: "'x compilation list")

text \<open>
  The items handed to \<open>create\<close>: \<open>{ name, source }\<close>, \<open>{ name, chunkGroup }\<close>, a chunk
  or module of the build, a child compilation.
\<close>

datatype 'x item =
    NamedSource string 'x
  | NamedChunkGroup string 'x
  | BuildObject 'x
  | ChildCompilation "'x compilation"

record 'x extract_context =
  type :: string
  context_compilation :: "'x compilation"
  startTime :: int
  endTime :: int

text \<open>
  The object an extractor fills is the map of its fields.  The factory is known by its
  method \<open>create(type, items, context)\<close>, which returns the array of the report nodes
  of the items or, where a merge is bound to the type, their mapping by name.
\<close>

type_synonym jsobject = "string \<rightharpoonup> jsval"

type_synonym 'x factory = "string \<Rightarrow> 'x item list \<Rightarrow> 'x extract_context \<Rightarrow> jsval"

type_synonym 'x extractor =
  "jsobject \<Rightarrow> 'x compilation \<Rightarrow> 'x extract_context \<Rightarrow> jsprops \<Rightarrow> 'x factory \<Rightarrow> jsobject"

text \<open>
  \<open>array.length - created.length\<close>: a number when \<open>created\<close> is an array; a mapping
  by name has no length of its own (the read gives \<open>undefined\<close>, or a node named
  \<open>length\<close>), and the difference is \<open>NaN\<close>.
\<close>

definition filtered :: "nat \<Rightarrow> jsval \<Rightarrow> jsval" where
  "filtered n created =
     (case created of JArr nodes \<Rightarrow> JNum (int n - int (length nodes)) | _ \<Rightarrow> JNaN)"

text \<open>
  The twelve entries of \<open>SIMPLE_EXTRACTORS.compilation\<close>, one definition each, named by
  the option of the entry.
\<close>

definition compilation_always :: "'x extractor" where
  "compilation_always object compilation context options factory =
     (if needAdditionalPass compilation then object(''needAdditionalPass'' \<mapsto> JBool True)
      else object)"

definition compilation_hash :: "'x extractor" where
  "compilation_hash object compilation context options factory =
     object(''hash'' \<mapsto> JStr (hash compilation))"

text \<open>\<open>version\<close> is the version of \<open>package.json\<close>, a parameter here.\<close>

definition compilation_version :: "string \<Rightarrow> 'x extractor" where
  "compilation_version version object compilation context options factory =
     object(''version'' \<mapsto> JStr version)"

definition compilation_timings :: "'x extractor" where
  "compilation_timings object compilation context options factory =
     object(''time'' \<mapsto> JNum (endTime context - startTime context))"

definition compilation_builtAt :: "'x extractor" where
  "compilation_builtAt object compilation context options factory =
     object(''builtAt'' \<mapsto> JNum (endTime context))"

definition compilation_publicPath :: "'x extractor" where
  "compilation_publicPath object compilation context options factory =
     object(''publicPath'' \<mapsto> JStr (getPublicPath compilation (hash compilation)))"

definition compilation_outputPath :: "'x extractor" where
  "compilation_outputPath object compilation context options factory =
     object(''outputPath'' \<mapsto> JStr (outputPath compilation))"

definition compilation_assets :: "'x extractor" where
  "compilation_assets object compilation context options factory =
     (let array = map (\<lambda>(name, source). NamedSource name source) (assets compilation);
          created = factory (type context @ ''.assets'') array context
      in object(''assets'' \<mapsto> created,
                ''filteredAssets'' \<mapsto> filtered (length array) created))"

definition compilation_chunks :: "'x extractor" where
  "compilation_chunks object compilation context options factory =
     object(''chunks'' \<mapsto>
       factory (type context @ ''.chunks'') (map BuildObject (chunks compilation)) context)"

definition compilation_modules :: "'x extractor" where
  "compilation_modules object compilation context options factory =
     (let array = map BuildObject (modules compilation);
          created = factory (type context @ ''.modules'') array context
      in object(''modules'' \<mapsto> created,
                ''filteredModules'' \<mapsto> filtered (length array) created))"

text \<open>
  \<^verbatim>\<open>
  entrypoints: (object, compilation, context, options, factory) => {
    const { type } = context;
    const array = Array.from(compilation.entrypoints, ([key, value]) => ({
      name: key,
      chunkGroup: value
    }));
    object.entrypoints = factory.create(`${type}.entrypoints`, array, context);
  },
  chunkGroups: (object, compilation, context, options, factory) => {
    const { type } = context;
    const array = Array.from(compilation.namedChunkGroups, ([key, value]) => ({
      name: key,
      chunkGroup: value
    }));
    object.entrypoints = factory.create(`${type}.entrypoints`, array, context);
  }
  \<close>
\<close>

definition compilation_entrypoints :: "'x extractor" where
  "compilation_entrypoints object compilation context options factory =
     (let array = map (\<lambda>(key, val). NamedChunkGroup key val) (entrypoints compilation)
      in object(''entrypoints'' \<mapsto> factory (type context @ ''.entrypoints'') array context))"

definition compilation_chunkGroups :: "'x extractor" where
  "compilation_chunkGroups object compilation context options factory =
     (let array = map (\<lambda>(key, val). NamedChunkGroup key val) (namedChunkGroups compilation)
      in object(''entrypoints'' \<mapsto> factory (type context @ ''.entrypoints'') array context))"

text \<open>
  The entry \<open>compilation\<close> of \<open>SIMPLE_EXTRACTORS\<close>, in the order of its keys.  The other
  entries (\<open>asset\<close>, \<open>chunkGroup\<close>, \<open>module\<close>, \<open>moduleIssuer\<close>, \<open>chunk\<close>) tap the hooks
  of their own names and never run on the object of a compilation.
\<close>

definition SIMPLE_EXTRACTORS :: "string \<Rightarrow> (string \<times> (string \<times> 'x extractor) list) list" where
  "SIMPLE_EXTRACTORS version =
     [(''compilation'',
       [(''_'', compilation_always),
        (''hash'', compilation_hash),
        (''version'', compilation_version version),
        (''timings'', compilation_timings),
        (''builtAt'', compilation_builtAt),
        (''publicPath'', compilation_publicPath),
        (''outputPath'', compilation_outputPath),
        (''assets'', compilation_assets),
        (''chunks'', compilation_chunks),
        (''modules'', compilation_modules),
        (''entrypoints'', compilation_entrypoints),
        (''chunkGroups'', compilation_chunkGroups)])]"

section \<open>The factory plugin: what \<open>apply\<close> taps\<close>

text \<open>
  A tap on an \<open>extract\<close> hook takes the object, the data and the context.
  \<^verbatim>\<open>
  iterateConfig(SIMPLE_EXTRACTORS, options, (hookFor, fn) => {
    stats.hooks.extract.for(hookFor).tap("DefaultStatsFactoryPlugin",
      (obj, data, ctx) => fn(obj, data, ctx, options, stats));
  });
  ...
  if (options.children) {
    stats.hooks.extract.for("compilation").tap("DefaultStatsFactoryPlugin",
      (object, comp, context) => {
        const { type } = context;
        object.children = comp.children.map((child, idx) => {
          return stats.create(`${type}.children`, comp.children, context);
        });
      });
  \<close>
  The callback of \<open>map\<close> receives a child and its index and uses neither; \<open>comp\<close> is
  written \<open>compilation\<close> below.
\<close>

type_synonym 'x extract_tap = "jsobject \<Rightarrow> 'x compilation \<Rightarrow> 'x extract_context \<Rightarrow> jsobject"

definition children_extract :: "'x factory \<Rightarrow> 'x extract_tap" where
  "children_extract stats object compilation context =
     object(''children'' \<mapsto>
       JArr (map (\<lambda>(child, idx).
                    stats (type context @ ''.children'')
                          (map ChildCompilation (children compilation)) context)
                 (zip (children compilation) [0..<length (children compilation)])))"

definition extract_taps ::
  "string \<Rightarrow> jsprops \<Rightarrow> 'x factory \<Rightarrow> (string \<times> 'x extract_tap) list" where
  "extract_taps version options stats =
     iterateConfig (SIMPLE_EXTRACTORS version) options
       (\<lambda>hookFor fn taps. taps @ [(hookFor, \<lambda>obj data ctx. fn obj data ctx options stats)]) []
     @ (if truthy (js_get options ''children'')
        then [(''compilation'', children_extract stats)] else [])"

text \<open>
  \<^verbatim>\<open>
    if (Array.isArray(options.children)) {
      stats.hooks.getItemFactory.for("compilation.children[].compilation")
        .tap("DefaultStatsFactoryPlugin", (comp, { _index: idx }) => {
          if (idx < options.children.length) {
            return compilation.createStatsFactory(
              compilation.createStatsOptions(options.children[idx], context));
          }
        });
    } else if (options.children !== true) {
      const childFactory = compilation.createStatsFactory(
        compilation.createStatsOptions(options.children, context));
      stats.hooks.getItemFactory.for("compilation.children[].compilation")
        .tap("DefaultStatsFactoryPlugin", () => { return childFactory; });
    }
  }
  \<close>
  \<open>createStatsFactory\<close> and \<open>createStatsOptions\<close> are methods of the compilation and
  parameters here; a tap is a function of the index \<open>_index\<close> of the child and returns
  a factory or \<open>undefined\<close>.
\<close>

definition getItemFactory_taps ::
  "('o \<Rightarrow> 'f) \<Rightarrow> (jsval \<Rightarrow> 'c \<Rightarrow> 'o) \<Rightarrow> jsprops \<Rightarrow> 'c \<Rightarrow> (string \<times> (nat \<Rightarrow> 'f option)) list" where
  "getItemFactory_taps createStatsFactory createStatsOptions options context =
     (if truthy (js_get options ''children'')
      then (case js_get options ''children'' of
              JArr cs \<Rightarrow>
                [(''compilation.children[].compilation'',
                  \<lambda>idx. if idx < length cs
                        then Some (createStatsFactory (createStatsOptions (cs ! idx) context))
                        else None)]
            | ch \<Rightarrow>
                if ch \<noteq> JBool True
                then [(''compilation.children[].compilation'',
                       \<lambda>idx. Some (createStatsFactory (createStatsOptions ch context)))]
                else [])
      else [])"

text \<open>
  Modelled from the spec: the call of an \<open>extract\<close> hook, which is part of the factory
  and not of the plugin: all handlers tapped for the key run in the order of their
  registration, each on the object the one before has left.
\<close>

definition call_extract ::
  "(string \<times> 'x extract_tap) list \<Rightarrow> string \<Rightarrow> jsobject \<Rightarrow> 'x compilation \<Rightarrow> 'x extract_context \<Rightarrow> jsobject" where
  "call_extract taps hookFor object data context =
     fold (\<lambda>(key, tap) object. if key = hookFor then tap object data context else object)
          taps object"

section \<open>Gating of handlers\<close>

lemma iterateSubConfig_fold:
  "iterateSubConfig options fn hookFor subConfig s =
     fold (\<lambda>(k, h). fn k h)
       (map (\<lambda>(option, h). (hookFor, h))
            (filter (\<lambda>(option, h). gate_spec options option) subConfig)) s"
  by (induction subConfig arbitrary: s) (auto simp: gate_spec_def split: if_splits)

lemma iterateConfig_fold:
  "iterateConfig config options fn s = fold (\<lambda>(k, h). fn k h) (selected config options) s"
  by (induction config arbitrary: s) (auto simp: selected_def iterateSubConfig_fold)

text \<open>
  C1.  The callback is invoked exactly once for every registration whose gate is open,
  in registration order, and for no other: a handler under an option key is passed on
  iff the value read from Options at that key is truthy, a handler under \<open>"_"\<close>
  always, also when Options is the empty object.  On the empty object the read is
  truthy exactly at the names that \<open>Object.prototype\<close> defines, so a handler
  under \<open>toString\<close> is passed on with the one under \<open>"_"\<close>, and one under \<open>foo\<close> is
  not.
\<close>

theorem iterateConfig_gating:
  "iterateConfig config options fn s = fold (\<lambda>(k, h). fn k h) (selected config options) s
   \<and> ((hookFor, h) \<in> set (selected config options) \<longleftrightarrow>
        (\<exists>subConfig option. (hookFor, subConfig) \<in> set config \<and> (option, h) \<in> set subConfig
           \<and> (option = ''_'' \<or> truthy (js_get options option))))
   \<and> gate_spec options ''_''
   \<and> gate_spec [] option = (option = ''_'' \<or> option \<in> set Object_prototype_names)
   \<and> iterateConfig [(''k'', [(''toString'', h1), (''foo'', h2), (''_'', h3)])] []
         (\<lambda>hookFor h calls. calls @ [(hookFor, h)]) []
       = [(''k'', h1), (''k'', h3)]"
proof -
  have "(hookFor, h) \<in> set (selected config options) \<longleftrightarrow>
        (\<exists>subConfig option. (hookFor, subConfig) \<in> set config \<and> (option, h) \<in> set subConfig
           \<and> (option = ''_'' \<or> truthy (js_get options option)))"
    by (auto simp: selected_def gate_spec_def split: if_splits) force+
  moreover have "gate_spec [] option = (option = ''_'' \<or> option \<in> set Object_prototype_names)"
  proof -
    have "''__proto__'' \<in> set Object_prototype_names"
      by (simp add: Object_prototype_names_def)
    then show ?thesis
      by (auto simp: gate_spec_def js_get_def Object_prototype_def)
  qed
  moreover have "iterateConfig [(''k'', [(''toString'', h1), (''foo'', h2), (''_'', h3)])] []
         (\<lambda>hookFor h calls. calls @ [(hookFor, h)]) []
       = [(''k'', h1), (''k'', h3)]"
    by (simp add: js_get_def Object_prototype_def Object_prototype_names_def)
  ultimately show ?thesis
    by (simp add: iterateConfig_fold gate_spec_def)
qed

section \<open>Merging named items\<close>

lemma mergeToObject_loop_lookup:
  "mergeToObject_loop items obj k =
     (case filter (\<lambda>i. name i = k) items of [] \<Rightarrow> obj k | x # xs \<Rightarrow> Some (last (x # xs)))"
  by (induction items arbitrary: obj) (auto split: list.splits)

text \<open>
  C4.  The merge maps a name to the last item of the list that bears it, and no other
  name to anything: each distinct name to its item, the later of two items that share a
  name (not the earlier), whatever the order of the array.
\<close>

theorem mergeToObject_last_wins:
  "mergeToObject items k =
     (case filter (\<lambda>i. name i = k) items of [] \<Rightarrow> None | x # xs \<Rightarrow> Some (last (x # xs)))
   \<and> dom (mergeToObject items) = name ` set items
   \<and> mergeToObject [\<lparr>name = ''x'', v = 1\<rparr>, \<lparr>name = ''y'', v = 2\<rparr>]
       = [''x'' \<mapsto> \<lparr>name = ''x'', v = 1\<rparr>, ''y'' \<mapsto> \<lparr>name = ''y'', v = 2\<rparr>]
   \<and> mergeToObject [\<lparr>name = ''y'', v = 2\<rparr>, \<lparr>name = ''x'', v = 1\<rparr>]
       = mergeToObject [\<lparr>name = ''x'', v = 1\<rparr>, \<lparr>name = ''y'', v = 2\<rparr>]
   \<and> mergeToObject [\<lparr>name = ''x'', v = 1\<rparr>, \<lparr>name = ''x'', v = 2\<rparr>]
       = [''x'' \<mapsto> \<lparr>name = ''x'', v = 2\<rparr>]"
proof -
  have look: "mergeToObject items k =
     (case filter (\<lambda>i. name i = k) items of [] \<Rightarrow> None | x # xs \<Rightarrow> Some (last (x # xs)))"
    for items :: "'b named_scheme list" and k
    by (simp add: mergeToObject_def mergeToObject_loop_lookup)
  have "dom (mergeToObject items) = name ` set items"
  proof (rule set_eqI)
    fix k
    show "k \<in> dom (mergeToObject items) \<longleftrightarrow> k \<in> name ` set items"
    proof (cases "filter (\<lambda>i. name i = k) items")
      case Nil
      then have "k \<notin> name ` set items"
        by (auto simp: filter_empty_conv)
      with Nil show ?thesis by (simp add: look domIff)
    next
      case (Cons x xs)
      then have "x \<in> set (filter (\<lambda>i. name i = k) items)" by simp
      then have "k \<in> name ` set items" by auto
      with Cons show ?thesis by (simp add: look domIff)
    qed
  qed
  moreover have "mergeToObject [\<lparr>name = ''y'', v = 2\<rparr>, \<lparr>name = ''x'', v = 1\<rparr>]
       = mergeToObject [\<lparr>name = ''x'', v = 1\<rparr>, \<lparr>name = ''y'', v = 2\<rparr>]"
    by (rule ext) (simp add: mergeToObject_def)
  ultimately show ?thesis
    using look [of items k] by (simp add: mergeToObject_def)
qed

section \<open>Ordering of fields\<close>

lemma createOrder_prefered_eq:
  "createOrder_prefered present pref (array, usedSet) =
     (array @ filter (\<lambda>e. endsWith e ''!'' \<or> e \<in> present) pref,
      usedSet \<union> {e \<in> set pref. endsWith e ''!'' \<or> e \<in> present})"
  by (induction pref arbitrary: array usedSet) auto

lemma createOrder_original_eq:
  "createOrder_original orig (array, usedSet) =
     (array @ filter (\<lambda>e. e \<notin> usedSet) orig, usedSet)"
  by (induction orig arbitrary: array) auto

lemma createOrder_eq:
  "createOrder present preferred =
     filter (\<lambda>e. endsWith e ''!'' \<or> e \<in> set present) preferred
     @ filter (\<lambda>e. e \<notin> set preferred) present"
proof -
  have "filter (\<lambda>e. e \<notin> set (filter (\<lambda>e. endsWith e ''!'' \<or> e \<in> set present) preferred)) present
      = filter (\<lambda>e. e \<notin> set preferred) present"
    by (rule filter_cong) auto
  then show ?thesis
    by (simp add: createOrder_def Let_def createOrder_prefered_eq createOrder_original_eq)
qed

text \<open>
  C3.  The result is the preferred entries that end in \<open>"!"\<close> or are present, in
  preferred order, followed by the present fields not yet used, in their original order;
  the fields not yet used are the present fields that the preferred order does not name.
\<close>

theorem createOrder_preferred_then_rest:
  "createOrder present preferred =
     filter (\<lambda>e. endsWith e ''!'' \<or> e \<in> set present) preferred
     @ filter (\<lambda>e. e \<notin> set (filter (\<lambda>e. endsWith e ''!'' \<or> e \<in> set present) preferred)) present
   \<and> createOrder present preferred =
     filter (\<lambda>e. endsWith e ''!'' \<or> e \<in> set present) preferred
     @ filter (\<lambda>e. e \<notin> set preferred) present
   \<and> createOrder [''b'', ''a'', ''z''] [''a'', ''b''] = [''a'', ''b'', ''z'']
   \<and> createOrder [''b''] [''kind!'', ''b''] = [''kind!'', ''b'']"
proof -
  have first: "createOrder present preferred =
     filter (\<lambda>e. endsWith e ''!'' \<or> e \<in> set present) preferred
     @ filter (\<lambda>e. e \<notin> set (filter (\<lambda>e. endsWith e ''!'' \<or> e \<in> set present) preferred)) present"
    for present preferred
    by (simp add: createOrder_def Let_def createOrder_prefered_eq createOrder_original_eq)
  have "filter (\<lambda>e. e \<notin> set (filter (\<lambda>e. endsWith e ''!'' \<or> e \<in> set present) preferred)) present
      = filter (\<lambda>e. e \<notin> set preferred) present"
    by (rule filter_cong) auto
  with first [of present preferred]
  have second: "createOrder present preferred =
     filter (\<lambda>e. endsWith e ''!'' \<or> e \<in> set present) preferred
     @ filter (\<lambda>e. e \<notin> set preferred) present"
    by simp
  have "createOrder [''b'', ''a'', ''z''] [''a'', ''b''] = [''a'', ''b'', ''z'']"
    by (simp add: first endsWith_def)
  moreover have "createOrder [''b''] [''kind!'', ''b''] = [''kind!'', ''b'']"
    by (simp add: first endsWith_def)
  ultimately show ?thesis
    using first [of present preferred] second by simp
qed

section \<open>Table layout\<close>

lemma pad_loop_eq:
  "pad_loop l colSize notLast str = str @ (if notLast then replicate (colSize - l) CHR '' '' else [])"
proof (induction l colSize notLast str rule: pad_loop.induct)
  case (1 l colSize notLast str)
  show ?case
  proof (cases "l < colSize \<and> notLast")
    case True
    then have eq: "colSize - l = Suc (colSize - Suc l)" by arith
    have "pad_loop l colSize notLast str = pad_loop (Suc l) colSize notLast (str @ '' '')"
      by (subst pad_loop.simps) (use True in simp)
    also have "\<dots> = (str @ '' '') @ replicate (colSize - Suc l) CHR '' ''"
      using True 1 by simp
    also have "\<dots> = str @ replicate (colSize - l) CHR '' ''"
      unfolding eq by simp
    finally show ?thesis using True by simp
  next
    case False
    have "pad_loop l colSize notLast str = str"
      by (subst pad_loop.simps) (use False in auto)
    then show ?thesis using False by auto
  qed
qed


lemma measure_row_prefix:
  "n \<le> length colSizes \<Longrightarrow>
   fold (measure_cell row) [0..<n] colSizes
   = map (\<lambda>col. if col < n then max (colSizes ! col) (length (cell row col)) else colSizes ! col)
         [0..<length colSizes]"
  (is "_ \<Longrightarrow> _ = ?M n")
proof (induction n)
  case 0
  then show ?case by (simp add: map_nth)
next
  case (Suc n)
  have IH: "fold (measure_cell row) [0..<n] colSizes = ?M n" using Suc by simp
  have n: "n < length colSizes" using Suc.prems by simp
  have Mn: "?M n ! n = colSizes ! n" using n by simp
  have "fold (measure_cell row) [0..<Suc n] colSizes = measure_cell row n (?M n)"
    by (simp add: IH)
  also have "\<dots> = (if length (cell row n) > colSizes ! n
                    then (?M n)[n := length (cell row n)] else ?M n)"
    unfolding measure_cell_def Let_def Mn ..
  also have "\<dots> = ?M (Suc n)"
  proof (rule nth_equalityI)
    show "length (if length (cell row n) > colSizes ! n
                    then (?M n)[n := length (cell row n)] else ?M n) = length (?M (Suc n))"
      by simp
  next
    fix i
    assume "i < length (if length (cell row n) > colSizes ! n
                    then (?M n)[n := length (cell row n)] else ?M n)"
    then have i: "i < length colSizes" by (simp split: if_splits)
    show "(if length (cell row n) > colSizes ! n
                    then (?M n)[n := length (cell row n)] else ?M n) ! i = ?M (Suc n) ! i"
    proof (cases "i = n")
      case True
      then show ?thesis using n by (simp add: max_def)
    next
      case False
      then show ?thesis using i n by (simp add: less_Suc_eq)
    qed
  qed
  finally show ?case .
qed

lemma measure_row_eq:
  "length colSizes = cols \<Longrightarrow>
   measure_row cols row colSizes = map (\<lambda>col. max (colSizes ! col) (length (cell row col))) [0..<cols]"
  unfolding measure_row_def by (subst measure_row_prefix) auto

lemma measure_rows_gen:
  "length colSizes = cols \<Longrightarrow>
   fold (measure_row cols) array colSizes
   = map (\<lambda>col. fold (\<lambda>row w. max w (length (cell row col))) array (colSizes ! col)) [0..<cols]"
proof (induction array arbitrary: colSizes)
  case Nil
  then show ?case by (auto simp: list_eq_iff_nth_eq)
next
  case (Cons row array)
  have len: "length (measure_row cols row colSizes) = cols"
    using Cons.prems by (simp add: measure_row_eq)
  show ?case
    using Cons.prems by (simp add: Cons.IH [OF len]) (simp add: measure_row_eq)
qed

lemma measure_rows_eq:
  "measure_rows cols array = map (col_width array) [0..<cols]"
  by (simp add: measure_rows_def measure_rows_gen col_width_def)

lemma fold_append_concat:
  "(\<And>x s. x \<in> set xs \<Longrightarrow> f x s = s @ g x) \<Longrightarrow> fold f xs str = str @ concat (map g xs)"
  by (induction xs arbitrary: str) auto


lemma table_col_eq:
  "col < cols \<Longrightarrow> cols = length (hd array) \<Longrightarrow>
   table_col cols (measure_rows cols array) align splitter row col str
   = str @ emitted_cell array align splitter row col"
  by (simp add: table_col_def emitted_cell_def padded_def Let_def pad_loop_eq measure_rows_eq align_is_def)

lemma table_line_eq:
  "cols = length (hd array) \<Longrightarrow>
   table_line cols (measure_rows cols array) align splitter row
   = concat (map (emitted_cell array align splitter row) [0..<cols])"
  unfolding table_line_def
  by (subst fold_append_concat [where g = "emitted_cell array align splitter row"])
     (simp_all add: table_col_eq)


lemma table_nonempty:
  assumes "array \<noteq> []"
  shows "table array align splitter =
     Inr (join (map (\<lambda>row. concat (map (emitted_cell array align splitter row)
                                      [0..<length (hd array)])) array) [CHR 0x0A])"
proof (cases array)
  case Nil
  with assms show ?thesis by simp
next
  case (Cons first rest)
  have line: "table_line (length first) (measure_rows (length first) (first # rest)) align splitter
        = (\<lambda>row. concat (map (emitted_cell (first # rest) align splitter row) [0..<length first]))"
  proof (rule ext)
    fix row
    show "table_line (length first) (measure_rows (length first) (first # rest)) align splitter row
        = concat (map (emitted_cell (first # rest) align splitter row) [0..<length first])"
      using table_line_eq [of "length first" "first # rest" align splitter row] by simp
  qed
  show ?thesis
    using Cons by (simp add: table_def Let_def line)
qed

lemma example_table:
  "table [[''a'', ''bb''], [''ccc'', ''d'']] [''l'', ''r''] None
     = Inr (''a    bb'' @ [CHR 0x0A] @ ''ccc  d'')"
  by (simp add: table_nonempty emitted_cell_def padded_def col_width_def cell_def
        align_is_def splitter_or_default_def upt_rec [of 0] upt_rec [of 1] upt_rec [of 2])

text \<open>
  C2, as the specification states it, fails on its own example: column 1 is the last
  column, which the code never pads, so the second line ends in \<open>d\<close> at width 1 and
  not in \<open>d\<close> padded on the left to width 2.
\<close>

theorem table_example_last_column_unpadded:
  "table [[''a'', ''bb''], [''ccc'', ''d'']] [''l'', ''r''] None
     = Inr (''a    bb'' @ [CHR 0x0A] @ ''ccc  d'')
   \<and> table [[''a'', ''bb''], [''ccc'', ''d'']] [''l'', ''r''] None
     \<noteq> Inr (''a    bb'' @ [CHR 0x0A] @ ''ccc   d'')"
  by (simp add: example_table)

text \<open>
  C2, amended.  For one or more rows the text is the lines of the rows joined by
  newlines, and a line is its cells in column order, where a cell of any column but the
  last is padded with spaces to the greatest width of its column (on the left when
  right-aligned, on the right when left-aligned) and followed by the separator, two
  spaces by default, unless the column has width zero; the cell of the last column is
  emitted as it is, with no padding and no separator.
\<close>

theorem table_layout:
  "array \<noteq> [] \<Longrightarrow>
   table array align splitter =
     Inr (join (map (\<lambda>row. concat (map (emitted_cell array align splitter row)
                                      [0..<length (hd array)])) array) [CHR 0x0A])
   \<and> emitted_cell array align splitter row col =
       (if col + 1 < length (hd array)
        then padded align col (col_width array col) (cell row col)
             @ (if col_width array col \<noteq> 0 then splitter_or_default splitter else [])
        else if align_is align col ''l'' \<or> align_is align col ''r'' then cell row col else [])"
  by (simp add: table_nonempty emitted_cell_def padded_def)

theorem table_layout_witness:
  "[[''a'', ''bb''], [''ccc'', ''d'']] \<noteq> []
   \<and> table [[''a'', ''bb''], [''ccc'', ''d'']] [''l'', ''r''] None
       = Inr (''a    bb'' @ [CHR 0x0A] @ ''ccc  d'')"
  using table_layout [of "[[''a'', ''bb''], [''ccc'', ''d'']]" "[''l'', ''r'']" None]
  by (simp add: emitted_cell_def padded_def col_width_def cell_def
        align_is_def splitter_or_default_def upt_rec [of 0] upt_rec [of 1] upt_rec [of 2])

text \<open>
  C7, as the specification states it, fails: applied to no rows the table formatter
  does not return a signal, it throws a TypeError.
\<close>

theorem table_empty_throws:
  "table [] [''r'', ''r'', ''r'', ''l'', ''l'', ''l''] None = Inl TypeError"
  by (simp add: table_def)

text \<open>
  C7, amended.  It is the caller that signals "no table": for no items the handler of
  \<open>printItems\<close> for \<open>compilation.assets\<close> returns \<open>undefined\<close> without calling the
  table formatter, and for one or more items it returns the text of the table under its
  header row, never a failure.  The table formatter itself throws a TypeError on an
  array of no rows.
\<close>

theorem printItems_compilation_assets_no_table:
  "printItems_compilation_assets [] bold = Inr None
   \<and> (\<exists>text. printItems_compilation_assets (item # items) bold = Inr (Some text)
        \<and> table (map (\<lambda>h. if h \<noteq> [] then bold h else h)
                      [''Asset'', ''Size'', ''Chunks'', [], [], ''Chunk Names''] # item # items)
                 [''r'', ''r'', ''r'', ''l'', ''l'', ''l''] None = Inr text)
   \<and> table [] align splitter = Inl TypeError"
  by (simp add: printItems_compilation_assets_def table_def Let_def)

section \<open>The joined line of a module\<close>

lemma module_filter_hasName:
  "module_filter m (idv, True) items
     = filter (\<lambda>item. element item \<noteq> ''name'' \<and> element item \<noteq> ''identifier'') items"
  by (induction items arbitrary: idv) auto

lemma module_filter_id_first:
  assumes "module_id m = StrId (name m)" and "element item = ''id''"
  shows "module_filter m (idv, hasName) (item # items)
         = item # filter (\<lambda>item. element item \<noteq> ''name'' \<and> element item \<noteq> ''identifier'') items"
  using assms by (simp add: module_filter_hasName)

lemma module_filter_after_prefix:
  assumes "module_id m = StrId (name m)" and "element idItem = ''id''"
      and "\<forall>item \<in> set pre. element item \<noteq> ''name''"
  shows "idItem \<in> set (module_filter m st (pre @ idItem # post))
       \<and> (\<forall>item \<in> set (module_filter m st (pre @ idItem # post)). element item \<noteq> ''name'')"
  using assms(3)
proof (induction pre arbitrary: st)
  case Nil
  obtain idv hasName where st: "st = (idv, hasName)" by (cases st)
  show ?case
    unfolding st append_Nil module_filter_id_first [OF assms(1,2)]
    using assms(2) by simp
next
  case (Cons x pre)
  obtain idv hasName where st: "st = (idv, hasName)" by (cases st)
  from Cons.prems have x: "element x \<noteq> ''name''" and pre: "\<forall>item \<in> set pre. element item \<noteq> ''name''"
    by simp_all
  from Cons.IH [OF pre] x show ?case
    unfolding st by simp
qed

text \<open>
  The order the plugin gives the fields of a module in its tap on \<open>sortElements\<close>:
  where the module has an id, the id is the first element, so that no name precedes it.
\<close>

lemma createOrder_module_id_first:
  "''id'' \<in> set keys \<Longrightarrow> \<exists>rest. createOrder keys PREFERED_ORDERS_module = ''id'' # rest"
  by (simp add: createOrder_eq PREFERED_ORDERS_module_def)

lemma sorted_module_items_id_first:
  assumes "map element items = createOrder keys PREFERED_ORDERS_module" and "''id'' \<in> set keys"
  shows "\<exists>idItem post. items = [] @ idItem # post \<and> element idItem = ''id''"
proof -
  obtain rest where "createOrder keys PREFERED_ORDERS_module = ''id'' # rest"
    using createOrder_module_id_first [OF assms(2)] by blast
  with assms(1) show ?thesis by (cases items) auto
qed

text \<open>
  C5, as the specification states it, fails: the joiner drops a name only after it has
  seen the id.  With the name before the id, a module whose id equals its name has both
  on its line.
\<close>

theorem module_joiner_name_before_id:
  "module_id \<lparr>name = ''./a.js'', module_id = StrId ''./a.js''\<rparr>
     = StrId (name \<lparr>name = ''./a.js'', module_id = StrId ''./a.js''\<rparr>)
   \<and> \<lparr>element = ''name'', content = Some ''./a.js''\<rparr>
       \<in> set (module_filter \<lparr>name = ''./a.js'', module_id = StrId ''./a.js''\<rparr> (None, False)
                [\<lparr>element = ''name'', content = Some ''./a.js''\<rparr>,
                 \<lparr>element = ''id'', content = Some ''[./a.js]''\<rparr>,
                 \<lparr>element = ''sizes'', content = Some ''10 bytes''\<rparr>])
   \<and> SIMPLE_ELEMENT_JOINERS_module
         [\<lparr>element = ''name'', content = Some ''./a.js''\<rparr>,
          \<lparr>element = ''id'', content = Some ''[./a.js]''\<rparr>,
          \<lparr>element = ''sizes'', content = Some ''10 bytes''\<rparr>]
         \<lparr>name = ''./a.js'', module_id = StrId ''./a.js''\<rparr>
       = ''./a.js [./a.js] 10 bytes''"
  by (simp add: SIMPLE_ELEMENT_JOINERS_module_def contents_def content_truthy_def)

text \<open>
  C5, amended.  Take a module whose id equals its name, and printed elements among
  which the id stands with no name before it.  Then the joiner keeps the id element and
  drops every name element, and the line is the join of the contents of what is kept;
  where the id is the first element, as it is in the order of \<open>PREFERED_ORDERS.module\<close>,
  what is kept is the id followed by the elements other than \<open>name\<close> and
  \<open>identifier\<close>.
\<close>

theorem module_joiner_suppresses_name:
  assumes "module_id m = StrId (name m)"
      and "element idItem = ''id''"
      and "\<forall>item \<in> set pre. element item \<noteq> ''name''"
  shows "idItem \<in> set (module_filter m (None, False) (pre @ idItem # post))
       \<and> (\<forall>item \<in> set (module_filter m (None, False) (pre @ idItem # post)).
             element item \<noteq> ''name'')
       \<and> SIMPLE_ELEMENT_JOINERS_module (pre @ idItem # post) m
           = join (contents (module_filter m (None, False) (pre @ idItem # post))) '' ''
       \<and> SIMPLE_ELEMENT_JOINERS_module (idItem # post) m
           = join (contents (idItem #
                     filter (\<lambda>item. element item \<noteq> ''name'' \<and> element item \<noteq> ''identifier'')
                            post)) '' ''"
proof -
  note kept = module_filter_after_prefix [OF assms, of "(None, False)" post]
  have first: "module_filter m (None, False) (idItem # post)
      = idItem # filter (\<lambda>item. element item \<noteq> ''name'' \<and> element item \<noteq> ''identifier'') post"
    by (rule module_filter_id_first [OF assms(1,2)])
  have line: "SIMPLE_ELEMENT_JOINERS_module (idItem # post) m
      = join (contents (idItem #
                filter (\<lambda>item. element item \<noteq> ''name'' \<and> element item \<noteq> ''identifier'')
                       post)) '' ''"
    unfolding SIMPLE_ELEMENT_JOINERS_module_def first ..
  have gen: "SIMPLE_ELEMENT_JOINERS_module (pre @ idItem # post) m
      = join (contents (module_filter m (None, False) (pre @ idItem # post))) '' ''"
    by (rule SIMPLE_ELEMENT_JOINERS_module_def)
  from kept gen line show ?thesis by blast
qed

theorem module_joiner_suppresses_name_witness:
  "module_id \<lparr>name = ''./a.js'', module_id = StrId ''./a.js''\<rparr>
     = StrId (name \<lparr>name = ''./a.js'', module_id = StrId ''./a.js''\<rparr>)
   \<and> element \<lparr>element = ''id'', content = Some ''[./a.js]''\<rparr> = ''id''
   \<and> element \<lparr>element = ''identifier'', content = None\<rparr> \<noteq> ''name''
   \<and> SIMPLE_ELEMENT_JOINERS_module
         ([\<lparr>element = ''identifier'', content = None\<rparr>]
          @ \<lparr>element = ''id'', content = Some ''[./a.js]''\<rparr>
          # [\<lparr>element = ''name'', content = Some ''./a.js''\<rparr>,
             \<lparr>element = ''sizes'', content = Some ''10 bytes''\<rparr>])
         \<lparr>name = ''./a.js'', module_id = StrId ''./a.js''\<rparr>
       = ''[./a.js] 10 bytes''
   \<and> SIMPLE_ELEMENT_JOINERS_module
         (\<lparr>element = ''id'', content = Some ''[./a.js]''\<rparr>
          # [\<lparr>element = ''name'', content = Some ''./a.js''\<rparr>,
             \<lparr>element = ''sizes'', content = Some ''10 bytes''\<rparr>])
         \<lparr>name = ''./a.js'', module_id = StrId ''./a.js''\<rparr>
       = ''[./a.js] 10 bytes''"
proof -
  have idm: "module_id \<lparr>name = ''./a.js'', module_id = StrId ''./a.js''\<rparr>
     = StrId (name \<lparr>name = ''./a.js'', module_id = StrId ''./a.js''\<rparr>)"
    by simp
  have idItem: "element \<lparr>element = ''id'', content = Some ''[./a.js]''\<rparr> = ''id''"
    by simp
  have pre: "\<forall>item \<in> set [\<lparr>element = ''identifier'', content = None\<rparr>]. element item \<noteq> ''name''"
    by simp
  show ?thesis
    using idm idItem pre
      module_joiner_suppresses_name [OF idm idItem pre,
        of "[\<lparr>element = ''name'', content = Some ''./a.js''\<rparr>,
             \<lparr>element = ''sizes'', content = Some ''10 bytes''\<rparr>]"]
    by (simp add: contents_def content_truthy_def)
qed

section \<open>The extraction of a compilation\<close>

lemma fold_collect:
  "fold (\<lambda>(k, h) taps. taps @ [g k h]) xs acc = acc @ map (\<lambda>(k, h). g k h) xs"
  by (induction xs arbitrary: acc) auto

lemma extract_taps_eq:
  "extract_taps version options stats =
     map (\<lambda>(k, fn). (k, \<lambda>obj data ctx. fn obj data ctx options stats))
         (selected (SIMPLE_EXTRACTORS version) options)
     @ (if truthy (js_get options ''children'')
        then [(''compilation'', children_extract stats)] else [])"
  unfolding extract_taps_def iterateConfig_fold
  using fold_collect [of "\<lambda>k fn. (k, \<lambda>obj data ctx. fn obj data ctx options stats)" _ "[]"]
  by simp

lemma call_extract_append:
  "call_extract (xs @ ys) hookFor object data context
     = call_extract ys hookFor (call_extract xs hookFor object data context) data context"
  by (simp add: call_extract_def)

lemma call_extract_invariant:
  assumes "\<And>k tap obj. (k, tap) \<in> set taps \<Longrightarrow> P obj \<Longrightarrow> P (tap obj data context)"
      and "P object"
  shows "P (call_extract taps hookFor object data context)"
  using assms unfolding call_extract_def
  by (induction taps arbitrary: object) (auto split: prod.splits)

lemma map2_const:
  "map (\<lambda>(a, b). c) ps = replicate (length ps) c"
  by (induction ps) auto

lemma children_extract_replicate:
  "children_extract stats object compilation context =
     object(''children'' \<mapsto>
       JArr (replicate (length (children compilation))
               (stats (type context @ ''.children'')
                      (map ChildCompilation (children compilation)) context)))"
  by (simp add: children_extract_def map2_const)

lemma selected_member:
  "(k, fn) \<in> set (selected config options) \<Longrightarrow>
   \<exists>subConfig option. (k, subConfig) \<in> set config \<and> (option, fn) \<in> set subConfig"
  by (auto simp: selected_def)

lemma SIMPLE_EXTRACTORS_member:
  assumes "(k, fn) \<in> set (selected (SIMPLE_EXTRACTORS version) options)"
  shows "fn = compilation_always \<or> fn = compilation_hash \<or> fn = compilation_version version
       \<or> fn = compilation_timings \<or> fn = compilation_builtAt \<or> fn = compilation_publicPath
       \<or> fn = compilation_outputPath \<or> fn = compilation_assets \<or> fn = compilation_chunks
       \<or> fn = compilation_modules \<or> fn = compilation_entrypoints
       \<or> fn = compilation_chunkGroups"
proof -
  from selected_member [OF assms] obtain subConfig option
    where "(k, subConfig) \<in> set (SIMPLE_EXTRACTORS version)" and "(option, fn) \<in> set subConfig"
    by blast
  then show ?thesis
    unfolding SIMPLE_EXTRACTORS_def by simp blast
qed

lemma SIMPLE_EXTRACTORS_keep_chunkGroups:
  assumes "(k, fn) \<in> set (selected (SIMPLE_EXTRACTORS version) options)"
  shows "fn obj data ctx options stats ''chunkGroups'' = obj ''chunkGroups''"
  using SIMPLE_EXTRACTORS_member [OF assms]
  by (elim disjE)
     (simp_all add: compilation_always_def compilation_hash_def
        compilation_version_def compilation_timings_def compilation_builtAt_def
        compilation_publicPath_def compilation_outputPath_def compilation_assets_def
        compilation_chunks_def compilation_modules_def compilation_entrypoints_def
        compilation_chunkGroups_def Let_def)


lemma selected_snoc:
  "selected [(k, xs @ [(option, fn)])] options =
     selected [(k, xs)] options @ (if gate_spec options option then [(k, fn)] else [])"
  by (simp add: selected_def)

lemma SIMPLE_EXTRACTORS_chunkGroups_last:
  "\<exists>front. SIMPLE_EXTRACTORS version
     = [(''compilation'', front @ [(''chunkGroups'', compilation_chunkGroups)])]"
  unfolding SIMPLE_EXTRACTORS_def by (simp add: append_eq_Cons_conv)


lemma children_extract_other:
  "k \<noteq> ''children'' \<Longrightarrow> children_extract stats obj data ctx k = obj k"
  by (simp add: children_extract_def)

lemma extract_taps_keep_chunkGroups:
  assumes "(k, tap) \<in> set (extract_taps version options stats)"
  shows "tap obj data ctx ''chunkGroups'' = obj ''chunkGroups''"
proof -
  from assms consider
      (simple) fn where "(k, fn) \<in> set (selected (SIMPLE_EXTRACTORS version) options)"
                    and "tap = (\<lambda>obj data ctx. fn obj data ctx options stats)"
    | (child) "tap = children_extract stats"
    unfolding extract_taps_eq by (auto split: if_splits)
  then show ?thesis
  proof cases
    case simple
    then show ?thesis by (simp add: SIMPLE_EXTRACTORS_keep_chunkGroups)
  next
    case child
    then show ?thesis by (simp add: children_extract_other)
  qed
qed

lemma extract_taps_chunkGroups_split:
  assumes "truthy (js_get options ''chunkGroups'')"
  shows "\<exists>before. extract_taps version options stats =
           before
           @ [(''compilation'', \<lambda>obj data ctx. compilation_chunkGroups obj data ctx options stats)]
           @ (if truthy (js_get options ''children'')
              then [(''compilation'', children_extract stats)] else [])"
proof -
  obtain front where front: "SIMPLE_EXTRACTORS version
     = [(''compilation'', front @ [(''chunkGroups'', compilation_chunkGroups :: 'a extractor)])]"
    using SIMPLE_EXTRACTORS_chunkGroups_last by blast
  have "gate_spec options ''chunkGroups''"
    using assms by (simp add: gate_spec_def)
  then have "selected (SIMPLE_EXTRACTORS version) options
      = selected [(''compilation'', front)] options @ [(''compilation'', compilation_chunkGroups)]"
    unfolding front selected_snoc by simp
  then show ?thesis
    unfolding extract_taps_eq by simp
qed


text \<open>
  C9.  When the option \<open>chunkGroups\<close> is truthy, the extraction of a compilation ends
  with the field \<open>entrypoints\<close> holding what \<open>create\<close> returns for the named chunk
  groups at the type path of the context followed by \<open>.entrypoints\<close>, and leaves the
  field \<open>chunkGroups\<close> as it found it (absent, on a fresh object).  The handler
  overwrites what the handler of \<open>entrypoints\<close> has stored.
\<close>

theorem chunkGroups_stored_as_entrypoints:
  assumes "truthy (js_get options ''chunkGroups'')"
  shows "call_extract (extract_taps version options stats) ''compilation'' object compilation context
           ''entrypoints''
         = Some (stats (type context @ ''.entrypoints'')
                   (map (\<lambda>(key, val). NamedChunkGroup key val) (namedChunkGroups compilation))
                   context)
       \<and> call_extract (extract_taps version options stats) ''compilation'' object compilation context
           ''chunkGroups''
         = object ''chunkGroups''
       \<and> compilation_chunkGroups
           (compilation_entrypoints object compilation context options stats)
           compilation context options stats
         = object(''entrypoints'' \<mapsto>
             stats (type context @ ''.entrypoints'')
               (map (\<lambda>(key, val). NamedChunkGroup key val) (namedChunkGroups compilation))
               context)"
proof -
  let ?named = "stats (type context @ ''.entrypoints'')
                   (map (\<lambda>(key, val). NamedChunkGroup key val) (namedChunkGroups compilation))
                   context"
  obtain before where split: "extract_taps version options stats =
           before
           @ [(''compilation'', \<lambda>obj data ctx. compilation_chunkGroups obj data ctx options stats)]
           @ (if truthy (js_get options ''children'')
              then [(''compilation'', children_extract stats)] else [])"
    using extract_taps_chunkGroups_split [OF assms] by blast
  have "call_extract (extract_taps version options stats) ''compilation'' object compilation context
           ''entrypoints'' = Some ?named"
    unfolding split call_extract_append
    by (simp add: call_extract_def compilation_chunkGroups_def children_extract_other)
  moreover have "call_extract (extract_taps version options stats) ''compilation'' object
           compilation context ''chunkGroups'' = object ''chunkGroups''"
    by (rule call_extract_invariant [where P = "\<lambda>obj. obj ''chunkGroups'' = object ''chunkGroups''"])
       (simp_all add: extract_taps_keep_chunkGroups)
  moreover have "compilation_chunkGroups
           (compilation_entrypoints object compilation context options stats)
           compilation context options stats = object(''entrypoints'' \<mapsto> ?named)"
    by (simp add: compilation_chunkGroups_def compilation_entrypoints_def)
  ultimately show ?thesis by simp
qed


theorem chunkGroups_stored_as_entrypoints_witness:
  "truthy (js_get [(''entrypoints'', JBool True), (''chunkGroups'', JBool True)] ''chunkGroups'')
   \<and> call_extract
        (extract_taps ''5.0.0'' [(''entrypoints'', JBool True), (''chunkGroups'', JBool True)]
           (\<lambda>path items ctx. JArr [JStr path, JNum (int (length items))]))
        ''compilation'' Map.empty
        (Compilation False ''h'' (\<lambda>h. ''/'') ''/out'' [] [] [] [(''main'', 0::nat)]
           [(''main'', 0), (''vendor'', 1)] [])
        \<lparr>type = ''compilation'',
         context_compilation = Compilation False ''h'' (\<lambda>h. ''/'') ''/out'' [] [] []
           [(''main'', 0::nat)] [(''main'', 0), (''vendor'', 1)] [],
         startTime = 0, endTime = 5\<rparr>
        ''entrypoints''
      = Some (JArr [JStr ''compilation.entrypoints'', JNum 2])
   \<and> call_extract
        (extract_taps ''5.0.0'' [(''entrypoints'', JBool True), (''chunkGroups'', JBool True)]
           (\<lambda>path items ctx. JArr [JStr path, JNum (int (length items))]))
        ''compilation'' Map.empty
        (Compilation False ''h'' (\<lambda>h. ''/'') ''/out'' [] [] [] [(''main'', 0::nat)]
           [(''main'', 0), (''vendor'', 1)] [])
        \<lparr>type = ''compilation'',
         context_compilation = Compilation False ''h'' (\<lambda>h. ''/'') ''/out'' [] [] []
           [(''main'', 0::nat)] [(''main'', 0), (''vendor'', 1)] [],
         startTime = 0, endTime = 5\<rparr>
        ''chunkGroups''
      = None"
proof -
  have gate: "truthy (js_get [(''entrypoints'', JBool True), (''chunkGroups'', JBool True)]
                ''chunkGroups'')"
    by (simp add: js_get_def)
  show ?thesis
    using gate chunkGroups_stored_as_entrypoints [OF gate, of "''5.0.0''"
        "\<lambda>path items ctx. JArr [JStr path, JNum (int (length items))]" Map.empty
        "Compilation False ''h'' (\<lambda>h. ''/'') ''/out'' [] [] [] [(''main'', 0::nat)]
           [(''main'', 0), (''vendor'', 1)] []"
        "\<lparr>type = ''compilation'',
         context_compilation = Compilation False ''h'' (\<lambda>h. ''/'') ''/out'' [] [] []
           [(''main'', 0::nat)] [(''main'', 0), (''vendor'', 1)] [],
         startTime = 0, endTime = 5\<rparr>"]
    by simp
qed

text \<open>
  C10.  When the option \<open>children\<close> is truthy, the extraction of a compilation ends
  with the field \<open>children\<close> holding an array with one entry for each child, and every
  entry is what \<open>create\<close> returns for the whole list of the children: as many copies
  of the report of all children as there are children.
\<close>

theorem children_extract_copies:
  assumes "truthy (js_get options ''children'')"
  shows "call_extract (extract_taps version options stats) ''compilation'' object compilation context
           ''children''
         = Some (JArr (replicate (length (children compilation))
                   (stats (type context @ ''.children'')
                      (map ChildCompilation (children compilation)) context)))
       \<and> children_extract stats object compilation context
         = object(''children'' \<mapsto>
             JArr (replicate (length (children compilation))
                     (stats (type context @ ''.children'')
                        (map ChildCompilation (children compilation)) context)))"
  using assms unfolding extract_taps_eq call_extract_append
  by (simp add: call_extract_def children_extract_replicate)

theorem children_extract_copies_witness:
  "truthy (js_get [(''children'', JBool True)] ''children'')
   \<and> call_extract
        (extract_taps ''5.0.0'' [(''children'', JBool True)]
           (\<lambda>path items ctx. JArr (map (\<lambda>item. JStr path) items)))
        ''compilation'' Map.empty
        (Compilation False ''h'' (\<lambda>h. ''/'') ''/out'' [] [] [] [] []
           [Compilation False ''a'' (\<lambda>h. ''/'') ''/out'' [] [] [] [] [] [],
            Compilation False ''b'' (\<lambda>h. ''/'') ''/out'' [] [] [] [] [] [] :: nat compilation])
        \<lparr>type = ''compilation'',
         context_compilation = Compilation False ''h'' (\<lambda>h. ''/'') ''/out'' [] [] [] [] [] [],
         startTime = 0, endTime = 5\<rparr>
        ''children''
      = Some (JArr [JArr [JStr ''compilation.children'', JStr ''compilation.children''],
                    JArr [JStr ''compilation.children'', JStr ''compilation.children'']])"
proof -
  have gate: "truthy (js_get [(''children'', JBool True)] ''children'')"
    by (simp add: js_get_def)
  show ?thesis
    using gate children_extract_copies [OF gate, of "''5.0.0''"
        "\<lambda>path items ctx. JArr (map (\<lambda>item. JStr path) items)" Map.empty
        "Compilation False ''h'' (\<lambda>h. ''/'') ''/out'' [] [] [] [] []
           [Compilation False ''a'' (\<lambda>h. ''/'') ''/out'' [] [] [] [] [] [],
            Compilation False ''b'' (\<lambda>h. ''/'') ''/out'' [] [] [] [] [] [] :: nat compilation]"
        "\<lparr>type = ''compilation'',
         context_compilation = Compilation False ''h'' (\<lambda>h. ''/'') ''/out'' [] [] [] [] [] [],
         startTime = 0, endTime = 5\<rparr>"]
    by (simp add: numeral_2_eq_2)
qed

section \<open>The factory of a child\<close>

text \<open>
  C6.  When \<open>Options.children\<close> is an array, the plugin taps \<open>getItemFactory\<close> for the
  children once, and at a child index below the length of the array the tap returns
  the factory made from the options at that index, at an index equal to the length or
  beyond it returns \<open>undefined\<close>, no factory.
\<close>

theorem getItemFactory_positional:
  assumes "js_get options ''children'' = JArr cs"
  shows "map (\<lambda>(key, tap). (key, tap idx))
           (getItemFactory_taps createStatsFactory createStatsOptions options context)
         = [(''compilation.children[].compilation'',
             if idx < length cs
             then Some (createStatsFactory (createStatsOptions (cs ! idx) context))
             else None)]"
  using assms by (simp add: getItemFactory_taps_def)

theorem getItemFactory_positional_witness:
  "js_get [(''children'', JArr [JObj [(''assets'', JBool True)], JBool False])] ''children''
     = JArr [JObj [(''assets'', JBool True)], JBool False]
   \<and> map (\<lambda>(key, tap). (key, tap 1))
         (getItemFactory_taps (\<lambda>opts. opts) (\<lambda>v c. v)
            [(''children'', JArr [JObj [(''assets'', JBool True)], JBool False])] ())
       = [(''compilation.children[].compilation'', Some (JBool False))]
   \<and> map (\<lambda>(key, tap). (key, tap 2))
         (getItemFactory_taps (\<lambda>opts. opts) (\<lambda>v c. v)
            [(''children'', JArr [JObj [(''assets'', JBool True)], JBool False])] ())
       = [(''compilation.children[].compilation'', None)]"
proof -
  have arr: "js_get [(''children'', JArr [JObj [(''assets'', JBool True)], JBool False])] ''children''
     = JArr [JObj [(''assets'', JBool True)], JBool False]"
    by (simp add: js_get_def)
  show ?thesis
    using arr
      getItemFactory_positional [OF arr, of 1 "\<lambda>opts. opts" "\<lambda>v c. v" "()"]
      getItemFactory_positional [OF arr, of 2 "\<lambda>opts. opts" "\<lambda>v c. v" "()"]
    by simp
qed

end
